theory Spec2Isabelle
  imports Main
begin

section \<open>Values and attempt outcomes\<close>

text \<open>
  The values a rejected promise can carry. The two \<open>retryFetch\<close> functions only ever
  produce a primitive string (\<open>reject(`...`)\<close>) or an \<open>Error\<close> object built by
  \<open>new Error(`...`)\<close>; numbers and plain objects are part of the value universe so that the
  shape of a failure value can be talked about.
\<close>

datatype js_value =
    Str string
  | Num int
  | ErrorObj string
  | Obj "(string \<times> js_value) list"

text \<open>
  Reading a named data field of a value: a plain object has the fields it was built with, an
  \<open>Error\<close> made by \<open>new Error(msg)\<close> has \<open>message\<close> (and \<open>name\<close> from its prototype),
  a primitive string has \<open>length\<close>, a number has none.
\<close>

fun get_field :: "js_value \<Rightarrow> string \<Rightarrow> js_value option" where
  "get_field (Obj fs) k = map_of fs k"
| "get_field (ErrorObj m) k =
     (if k = ''message'' then Some (Str m)
      else if k = ''name'' then Some (Str ''Error'')
      else None)"
| "get_field (Str s) k = (if k = ''length'' then Some (Num (int (length s))) else None)"
| "get_field (Num n) k = None"

text \<open>
  What one call \<open>fetch(url)\<close> does, as seen by the retry code: the returned promise rejects
  with an error (its \<open>message\<close> is kept), or it resolves with a response that has an \<open>ok\<close>
  flag and a body; \<open>response.json()\<close> on that body either rejects with an error (\<open>Inl\<close> its
  message) or resolves with the decoded data (\<open>Inr\<close>).
\<close>

datatype 'a outcome =
    TransportError string
  | Response bool "string + 'a"

text \<open>
  One attempt, common to both implementations:
  \<^verbatim>\<open>
  fetch(url)
      .then(response => {
          if (!response.ok) throw new Error("Bad response.");
          return response.json();
      })
  \<close>
  and, in the async function,
  \<^verbatim>\<open>
  let response = await fetch(url);
  if (!response.ok) throw new Error("Bad response.");
  let data = await response.json();
  \<close>
  The result is \<open>Inr data\<close>, or \<open>Inl\<close> the \<open>message\<close> of the error that reaches the catch
  handler.
\<close>

fun attempt_result :: "'a outcome \<Rightarrow> string + 'a" where
  "attempt_result (TransportError m) = Inl m"
| "attempt_result (Response ok body) = (if \<not> ok then Inl ''Bad response.'' else body)"

section \<open>Text of the failure\<close>

text \<open>
  The template literals insert \<open>retries\<close> in decimal. The attempt counter and \<open>retries\<close> are
  modelled as mathematical integers: the source's numbers agree with them on every integer
  below \<open>2^53\<close>, and print in plain decimal there.
\<close>

definition digit_char :: "nat \<Rightarrow> char" where
  "digit_char d = ''0123456789'' ! d"

fun show_nat :: "nat \<Rightarrow> string" where
  "show_nat n = (if n < 10 then [digit_char n] else show_nat (n div 10) @ [digit_char (n mod 10)])"

definition show_int :: "int \<Rightarrow> string" where
  "show_int i = (if i < 0 then ''-'' @ show_nat (nat (- i)) else show_nat (nat i))"

text \<open>\<^verbatim>\<open>`Failed after ${retries} retries: ${error.message}`\<close>\<close>

definition failed_after :: "int \<Rightarrow> string \<Rightarrow> string" where
  "failed_after retries msg = ''Failed after '' @ show_int retries @ '' retries: '' @ msg"

text \<open>The cross mark U+274C and the space after it, as UTF-8 bytes.\<close>

definition cross_mark :: string where
  "cross_mark = [CHR 0xE2, CHR 0x9D, CHR 0x8C, CHR '' '']"

section \<open>The two implementations\<close>

text \<open>
  What an invocation does is recorded as the list of its effects, in order: each call of
  \<open>fetch(url)\<close> with the attempt counter it was made under, and each settlement of the promise
  handed to the caller (\<open>resolve(data)\<close> or \<open>return data\<close>; \<open>reject(v)\<close> or \<open>throw v\<close>).
  \<open>Resolve None\<close> is a promise fulfilled with \<open>undefined\<close>.
  The outcomes of the successive \<open>fetch\<close> calls are given as a list; when the list is used up
  the next \<open>fetch\<close> never settles, and nothing more happens.
\<close>

datatype 'a event =
    Fetch int
  | Resolve "'a option"
  | Reject js_value

text \<open>
  \<^verbatim>\<open>
  function attemptFetch(attempt) {
      fetch(url)
          .then(response => { ... })
          .then(data => resolve(data))
          .catch(error => {
              if (attempt < retries) {
                  attemptFetch(attempt + 1);
              } else {
                  reject(`<cross mark> Failed after ${retries} retries: ${error.message}`);
              }
          });
  }
  \<close>
\<close>

fun attemptFetch :: "int \<Rightarrow> int \<Rightarrow> 'a outcome list \<Rightarrow> 'a event list" where
  "attemptFetch retries attempt [] = [Fetch attempt]"
| "attemptFetch retries attempt (out # rest) =
     Fetch attempt #
     (case attempt_result out of
        Inr data \<Rightarrow> [Resolve (Some data)]
      | Inl msg \<Rightarrow>
          if attempt < retries then attemptFetch retries (attempt + 1) rest
          else [Reject (Str (cross_mark @ failed_after retries msg))])"

text \<open>\<^verbatim>\<open>function retryFetch(url, retries) { return new Promise((resolve, reject) => { ...; attemptFetch(1); }); }\<close>\<close>

definition retryFetch :: "int \<Rightarrow> 'a outcome list \<Rightarrow> 'a event list" where
  "retryFetch retries outs = attemptFetch retries 1 outs"

text \<open>
  The async/await function of the same name:
  \<^verbatim>\<open>
  async function retryFetch(url, retries) {
      for (let attempt = 1; attempt <= retries; attempt++) {
          try {
              let response = await fetch(url);
              if (!response.ok) throw new Error("Bad response.");
              let data = await response.json();
              return data; // success
          } catch (error) {
              if (attempt === retries) throw new Error(`Failed after ${retries} retries: ${error.message}`);
          }
      }
  }
  \<close>
  \<open>retryFetch_loop\<close> is the loop from a given value of \<open>attempt\<close>; falling out of the loop
  returns \<open>undefined\<close>.
\<close>

fun retryFetch_loop :: "int \<Rightarrow> int \<Rightarrow> 'a outcome list \<Rightarrow> 'a event list" where
  "retryFetch_loop retries attempt outs =
     (if attempt \<le> retries then
        (case outs of
           [] \<Rightarrow> [Fetch attempt]
         | out # rest \<Rightarrow>
             Fetch attempt #
             (case attempt_result out of
                Inr data \<Rightarrow> [Resolve (Some data)]
              | Inl msg \<Rightarrow>
                  if attempt = retries then [Reject (ErrorObj (failed_after retries msg))]
                  else retryFetch_loop retries (attempt + 1) rest))
      else [Resolve None])"

definition retryFetch_async :: "int \<Rightarrow> 'a outcome list \<Rightarrow> 'a event list" where
  "retryFetch_async retries outs = retryFetch_loop retries 1 outs"

section \<open>What the caller and the network see\<close>

text \<open>An attempt has failed when its error reaches the catch handler.\<close>

definition attempt_failed :: "'a outcome \<Rightarrow> bool" where
  "attempt_failed out = isl (attempt_result out)"

text \<open>The number of \<open>fetch(url)\<close> calls made, and the attempt counters they were made under.\<close>

fun is_fetch :: "'a event \<Rightarrow> bool" where
  "is_fetch (Fetch n) = True"
| "is_fetch (Resolve d) = False"
| "is_fetch (Reject v) = False"

definition calls :: "'a event list \<Rightarrow> nat" where
  "calls t = length (filter is_fetch t)"

fun fetch_attempts :: "'a event list \<Rightarrow> int list" where
  "fetch_attempts [] = []"
| "fetch_attempts (Fetch n # t) = n # fetch_attempts t"
| "fetch_attempts (Resolve d # t) = fetch_attempts t"
| "fetch_attempts (Reject v # t) = fetch_attempts t"

text \<open>Every invocation of \<open>resolve\<close>/\<open>reject\<close> (or \<open>return\<close>/\<open>throw\<close>), in order.\<close>

definition settlements :: "'a event list \<Rightarrow> 'a event list" where
  "settlements t = filter (\<lambda>e. \<not> is_fetch e) t"

text \<open>
  The state of the promise handed to the caller: the first settlement decides it, and it
  stays pending when there is none.
\<close>

datatype 'a promise =
    Pending
  | Fulfilled "'a option"
  | Rejected js_value

fun promise_state :: "'a event list \<Rightarrow> 'a promise" where
  "promise_state [] = Pending"
| "promise_state (Fetch n # t) = promise_state t"
| "promise_state (Resolve d # t) = Fulfilled d"
| "promise_state (Reject v # t) = Rejected v"

text \<open>
  The success condition as the specification words it, to be compared with
  \<open>attempt_result\<close>: the transport completes and the status is ok.
\<close>

fun transport_ok :: "'a outcome \<Rightarrow> bool" where
  "transport_ok (TransportError m) = False"
| "transport_ok (Response ok body) = ok"

text \<open>
  The failure shape the specification describes, to be compared with the values the code
  rejects with: a field \<open>attemptsMade\<close> holding an integer and a field \<open>lastError\<close> holding
  a string.
\<close>

definition has_exhausted_fields :: "js_value \<Rightarrow> bool" where
  "has_exhausted_fields v =
     ((case get_field v ''attemptsMade'' of Some (Num n) \<Rightarrow> True | _ \<Rightarrow> False) \<and>
      (case get_field v ''lastError'' of Some (Str e) \<Rightarrow> True | _ \<Rightarrow> False))"

text \<open>
  Comparing an effect of the promise-chain implementation with one of the async/await
  implementation: the same \<open>fetch\<close> call, the same resolution, or a rejection with the same
  text, which the first carries as a string behind the cross mark and the second as the
  message of an \<open>Error\<close>.
\<close>

fun matching :: "'a event \<Rightarrow> 'a event \<Rightarrow> bool" where
  "matching (Fetch n) e = (e = Fetch n)"
| "matching (Resolve d) e = (e = Resolve d)"
| "matching (Reject v) e =
     (case v of
        Str s \<Rightarrow> (case e of Reject (ErrorObj m) \<Rightarrow> s = cross_mark @ m | _ \<Rightarrow> False)
      | _ \<Rightarrow> False)"

text \<open>
  Turning every response with a non-ok status into a transport failure with the message
  that the code gives such a response.
\<close>

fun as_transport_failure :: "'a outcome \<Rightarrow> 'a outcome" where
  "as_transport_failure (TransportError m) = TransportError m"
| "as_transport_failure (Response ok body) =
     (if \<not> ok then TransportError ''Bad response.'' else Response ok body)"

section \<open>Basic facts\<close>

declare retryFetch_loop.simps [simp del]
declare show_nat.simps [simp del]

lemma retryFetch_loop_Nil:
  "attempt \<le> retries \<Longrightarrow> retryFetch_loop retries attempt [] = [Fetch attempt]"
  by (simp add: retryFetch_loop.simps)

lemma retryFetch_loop_Cons:
  "attempt \<le> retries \<Longrightarrow>
   retryFetch_loop retries attempt (out # rest) =
     Fetch attempt #
     (case attempt_result out of
        Inr data \<Rightarrow> [Resolve (Some data)]
      | Inl msg \<Rightarrow>
          if attempt = retries then [Reject (ErrorObj (failed_after retries msg))]
          else retryFetch_loop retries (attempt + 1) rest)"
  by (simp add: retryFetch_loop.simps)

lemma retryFetch_loop_exit:
  "retries < attempt \<Longrightarrow> retryFetch_loop retries attempt outs = [Resolve None]"
  by (simp add: retryFetch_loop.simps)

lemma calls_Fetches [simp]: "calls (map Fetch ns @ t) = length ns + calls t"
  by (induction ns) (simp_all add: calls_def)

lemma fetch_attempts_Fetches [simp]: "fetch_attempts (map Fetch ns @ t) = ns @ fetch_attempts t"
  by (induction ns) simp_all

lemma settlements_Fetches [simp]: "settlements (map Fetch ns @ t) = settlements t"
  by (induction ns) (simp_all add: settlements_def)

lemma promise_state_Fetches [simp]: "promise_state (map Fetch ns @ t) = promise_state t"
  by (induction ns) simp_all

text \<open>The recursion succeeding after a run of failed attempts.\<close>

lemma attemptFetch_success:
  assumes "\<forall>out' \<in> set pre. attempt_failed out'"
    and "attempt_result out = Inr d"
    and "attempt + int (length pre) \<le> retries"
  shows "attemptFetch retries attempt (pre @ out # rest) =
           map Fetch [attempt..attempt + int (length pre)] @ [Resolve (Some d)]"
  using assms
proof (induction pre arbitrary: attempt)
  case Nil
  then show ?case by (simp add: upto_rec1)
next
  case (Cons p pre)
  from Cons.prems(1) obtain m where m: "attempt_result p = Inl m"
    by (cases "attempt_result p") (auto simp: attempt_failed_def)
  have lt: "attempt < retries" using Cons.prems(3) by simp
  have "attemptFetch retries (attempt + 1) (pre @ out # rest) =
          map Fetch [attempt + 1..attempt + 1 + int (length pre)] @ [Resolve (Some d)]"
    using Cons.prems by (intro Cons.IH) auto
  moreover have "[attempt..attempt + int (length (p # pre))] =
                   attempt # [attempt + 1..attempt + 1 + int (length pre)]"
  proof -
    have e: "attempt + int (length (p # pre)) = attempt + 1 + int (length pre)" by simp
    show ?thesis unfolding e by (rule upto_rec1) simp
  qed
  ultimately show ?case using m lt by simp
qed

lemma retryFetch_loop_success:
  assumes "\<forall>out' \<in> set pre. attempt_failed out'"
    and "attempt_result out = Inr d"
    and "attempt + int (length pre) \<le> retries"
  shows "retryFetch_loop retries attempt (pre @ out # rest) =
           map Fetch [attempt..attempt + int (length pre)] @ [Resolve (Some d)]"
  using assms
proof (induction pre arbitrary: attempt)
  case Nil
  then show ?case by (simp add: upto_rec1 retryFetch_loop_Cons)
next
  case (Cons p pre)
  from Cons.prems(1) obtain m where m: "attempt_result p = Inl m"
    by (cases "attempt_result p") (auto simp: attempt_failed_def)
  have lt: "attempt < retries" using Cons.prems(3) by simp
  have "retryFetch_loop retries (attempt + 1) (pre @ out # rest) =
          map Fetch [attempt + 1..attempt + 1 + int (length pre)] @ [Resolve (Some d)]"
    using Cons.prems by (intro Cons.IH) auto
  moreover have "[attempt..attempt + int (length (p # pre))] =
                   attempt # [attempt + 1..attempt + 1 + int (length pre)]"
  proof -
    have e: "attempt + int (length (p # pre)) = attempt + 1 + int (length pre)" by simp
    show ?thesis unfolding e by (rule upto_rec1) simp
  qed
  ultimately show ?case using m lt by (simp add: retryFetch_loop_Cons)
qed

text \<open>The recursion running out of attempts.\<close>

lemma attemptFetch_exhausted:
  assumes "\<forall>out' \<in> set pre. attempt_failed out'"
    and "attempt_result out = Inl m"
    and "attempt + int (length pre) = retries"
  shows "attemptFetch retries attempt (pre @ out # rest) =
           map Fetch [attempt..retries] @ [Reject (Str (cross_mark @ failed_after retries m))]"
  using assms
proof (induction pre arbitrary: attempt)
  case Nil
  then show ?case by (simp add: upto_rec1)
next
  case (Cons p pre)
  from Cons.prems(1) obtain m' where m': "attempt_result p = Inl m'"
    by (cases "attempt_result p") (auto simp: attempt_failed_def)
  have lt: "attempt < retries" using Cons.prems(3) by auto
  have "attemptFetch retries (attempt + 1) (pre @ out # rest) =
          map Fetch [attempt + 1..retries] @ [Reject (Str (cross_mark @ failed_after retries m))]"
    using Cons.prems by (intro Cons.IH) auto
  moreover have "[attempt..retries] = attempt # [attempt + 1..retries]"
    using lt by (simp add: upto_rec1)
  ultimately show ?case using m' lt by simp
qed

lemma retryFetch_loop_exhausted:
  assumes "\<forall>out' \<in> set pre. attempt_failed out'"
    and "attempt_result out = Inl m"
    and "attempt + int (length pre) = retries"
  shows "retryFetch_loop retries attempt (pre @ out # rest) =
           map Fetch [attempt..retries] @ [Reject (ErrorObj (failed_after retries m))]"
  using assms
proof (induction pre arbitrary: attempt)
  case Nil
  then show ?case by (simp add: upto_rec1 retryFetch_loop_Cons)
next
  case (Cons p pre)
  from Cons.prems(1) obtain m' where m': "attempt_result p = Inl m'"
    by (cases "attempt_result p") (auto simp: attempt_failed_def)
  have lt: "attempt < retries" using Cons.prems(3) by auto
  have "retryFetch_loop retries (attempt + 1) (pre @ out # rest) =
          map Fetch [attempt + 1..retries] @ [Reject (ErrorObj (failed_after retries m))]"
    using Cons.prems by (intro Cons.IH) auto
  moreover have "[attempt..retries] = attempt # [attempt + 1..retries]"
    using lt by (simp add: upto_rec1)
  ultimately show ?case using m' lt by (simp add: retryFetch_loop_Cons)
qed

lemma attempt_result_ok: "attempt_result out = Inr d \<Longrightarrow> transport_ok out"
  by (cases out) (auto split: if_splits)

section \<open>Success on attempt k\<close>

text \<open>
  C1, as amended. Let the first \<open>k - 1\<close> attempts fail (\<open>pre\<close>, with \<open>k = length pre + 1\<close>),
  let attempt \<open>k \<le> retries\<close> succeed in the sense that the transport completes, the status
  is ok and the body decodes to \<open>d\<close>. Then both implementations call \<open>fetch\<close> exactly under
  the attempt counters \<open>1, ..., k\<close>, then resolve with \<open>d\<close>, and do nothing afterwards: \<open>k\<close>
  remote calls in all, none after the success, whatever outcomes (\<open>rest\<close>) later calls
  would have had.
\<close>

theorem retryFetch_first_success:
  assumes "\<forall>out' \<in> set pre. attempt_failed out'"
    and "attempt_result out = Inr d"
    and "int (length pre) + 1 \<le> retries"
  shows "retryFetch retries (pre @ out # rest) =
           map Fetch [1..int (length pre) + 1] @ [Resolve (Some d)]
       \<and> retryFetch_async retries (pre @ out # rest) =
           map Fetch [1..int (length pre) + 1] @ [Resolve (Some d)]
       \<and> promise_state (retryFetch retries (pre @ out # rest)) = Fulfilled (Some d)
       \<and> promise_state (retryFetch_async retries (pre @ out # rest)) = Fulfilled (Some d)
       \<and> calls (retryFetch retries (pre @ out # rest)) = length pre + 1
       \<and> calls (retryFetch_async retries (pre @ out # rest)) = length pre + 1"
proof -
  have le: "1 + int (length pre) \<le> retries" using assms(3) by simp
  have r: "retryFetch retries (pre @ out # rest) =
             map Fetch [1..1 + int (length pre)] @ [Resolve (Some d)]"
    unfolding retryFetch_def by (rule attemptFetch_success [OF assms(1,2) le])
  have a: "retryFetch_async retries (pre @ out # rest) =
             map Fetch [1..1 + int (length pre)] @ [Resolve (Some d)]"
    unfolding retryFetch_async_def by (rule retryFetch_loop_success [OF assms(1,2) le])
  have c: "[1..int (length pre) + 1] = [1..1 + int (length pre)]"
    by (simp add: add.commute)
  have n: "nat (1 + int (length pre)) = Suc (length pre)" by simp
  show ?thesis unfolding r a c by (simp add: n calls_def)
qed

theorem retryFetch_first_success_witness:
  "list_all attempt_failed [TransportError ''Failed to fetch'', Response False (Inr (0::nat))]
   \<and> attempt_result (Response True (Inr (42::nat))) = Inr 42
   \<and> int (length [TransportError ''Failed to fetch'', Response False (Inr (0::nat))]) + 1 \<le> 3
   \<and> retryFetch 3 [TransportError ''Failed to fetch'', Response False (Inr 0),
                    Response True (Inr (42::nat)), TransportError ''unused'']
       = [Fetch 1, Fetch 2, Fetch 3, Resolve (Some 42)]
   \<and> retryFetch_async 3 [TransportError ''Failed to fetch'', Response False (Inr 0),
                    Response True (Inr (42::nat)), TransportError ''unused'']
       = [Fetch 1, Fetch 2, Fetch 3, Resolve (Some 42)]"
  using retryFetch_first_success
    [where pre = "[TransportError ''Failed to fetch'', Response False (Inr (0::nat))]"
       and out = "Response True (Inr (42::nat))" and d = 42 and retries = 3
       and rest = "[TransportError ''unused'']"]
  by (simp add: attempt_failed_def upto_rec1)

text \<open>
  C1 as stated fails: a response can arrive with an ok status and a body that does not
  decode. \<open>response.json()\<close> then rejects, the catch handler takes the attempt for a failed
  one, and with \<open>retries = 1\<close> the promise is rejected although the transport completed and
  the status was ok on attempt 1.
\<close>

theorem retryFetch_ok_status_undecodable_body:
  "transport_ok (Response True (Inl ''Unexpected end of JSON input'') :: nat outcome)
   \<and> retryFetch 1 [Response True (Inl ''Unexpected end of JSON input'') :: nat outcome]
       = [Fetch 1,
          Reject (Str (cross_mark @ ''Failed after 1 retries: Unexpected end of JSON input''))]
   \<and> retryFetch_async 1 [Response True (Inl ''Unexpected end of JSON input'') :: nat outcome]
       = [Fetch 1, Reject (ErrorObj ''Failed after 1 retries: Unexpected end of JSON input'')]"
  by (simp add: retryFetch_def retryFetch_async_def retryFetch_loop.simps failed_after_def
      show_int_def show_nat.simps digit_char_def)

section \<open>Exhaustion\<close>

text \<open>
  C2. Let \<open>retries = N \<ge> 1\<close> and let every one of the first \<open>N\<close> attempts fail, in any of
  the ways an attempt can fail (\<open>pre\<close> are the first \<open>N - 1\<close> outcomes, \<open>out\<close> is the
  \<open>N\<close>-th, with error message \<open>m\<close>). Then both implementations make exactly \<open>N\<close> remote
  calls, under the attempt counters \<open>1, ..., N\<close>, and then reject; the text of the failure
  reports the count \<open>N\<close> in decimal: \<open>Failed after N retries: m\<close>.
\<close>

theorem retryFetch_all_fail:
  assumes "\<forall>out' \<in> set pre. attempt_failed out'"
    and "attempt_result out = Inl m"
    and "int (length pre) + 1 = retries"
  shows "calls (retryFetch retries (pre @ out # rest)) = nat retries
       \<and> calls (retryFetch_async retries (pre @ out # rest)) = nat retries
       \<and> fetch_attempts (retryFetch retries (pre @ out # rest)) = [1..retries]
       \<and> fetch_attempts (retryFetch_async retries (pre @ out # rest)) = [1..retries]
       \<and> promise_state (retryFetch retries (pre @ out # rest)) =
           Rejected (Str (cross_mark @ ''Failed after '' @ show_int retries @ '' retries: '' @ m))
       \<and> promise_state (retryFetch_async retries (pre @ out # rest)) =
           Rejected (ErrorObj (''Failed after '' @ show_int retries @ '' retries: '' @ m))"
proof -
  have eq: "1 + int (length pre) = retries" using assms(3) by simp
  have r: "retryFetch retries (pre @ out # rest) =
             map Fetch [1..retries] @ [Reject (Str (cross_mark @ failed_after retries m))]"
    unfolding retryFetch_def by (rule attemptFetch_exhausted [OF assms(1,2) eq])
  have a: "retryFetch_async retries (pre @ out # rest) =
             map Fetch [1..retries] @ [Reject (ErrorObj (failed_after retries m))]"
    unfolding retryFetch_async_def by (rule retryFetch_loop_exhausted [OF assms(1,2) eq])
  have n: "length [1..retries] = nat retries" by simp
  show ?thesis unfolding r a by (simp add: n failed_after_def calls_def)
qed

theorem retryFetch_all_fail_witness:
  "list_all attempt_failed [TransportError ''Failed to fetch'', Response False (Inr (0::nat))]
   \<and> attempt_result (Response True (Inl ''Unexpected end of JSON input'') :: nat outcome)
       = Inl ''Unexpected end of JSON input''
   \<and> int (length [TransportError ''Failed to fetch'', Response False (Inr (0::nat))]) + 1 = 3
   \<and> calls (retryFetch 3 [TransportError ''Failed to fetch'', Response False (Inr (0::nat)),
                           Response True (Inl ''Unexpected end of JSON input'')]) = 3
   \<and> calls (retryFetch_async 3 [TransportError ''Failed to fetch'', Response False (Inr (0::nat)),
                           Response True (Inl ''Unexpected end of JSON input'')]) = 3
   \<and> promise_state (retryFetch 3 [TransportError ''Failed to fetch'', Response False (Inr (0::nat)),
                           Response True (Inl ''Unexpected end of JSON input'')])
       = Rejected (Str (cross_mark @ ''Failed after 3 retries: Unexpected end of JSON input''))
   \<and> promise_state (retryFetch_async 3 [TransportError ''Failed to fetch'', Response False (Inr (0::nat)),
                           Response True (Inl ''Unexpected end of JSON input'')])
       = Rejected (ErrorObj ''Failed after 3 retries: Unexpected end of JSON input'')"
  using retryFetch_all_fail
    [where pre = "[TransportError ''Failed to fetch'', Response False (Inr (0::nat))]"
       and out = "Response True (Inl ''Unexpected end of JSON input'') :: nat outcome"
       and m = "''Unexpected end of JSON input''" and retries = 3 and rest = "[]"]
  by (simp add: attempt_failed_def show_int_def show_nat.simps digit_char_def)

text \<open>
  C4, as amended. On exhaustion the promise-chain implementation rejects with a primitive
  string, the cross mark followed by \<open>Failed after N retries: m\<close>, and the async/await
  implementation rejects with an \<open>Error\<close> whose \<open>message\<close> is \<open>Failed after N retries: m\<close>.
  The count and the last error are parts of that one text; neither value has a field
  \<open>attemptsMade\<close> or \<open>lastError\<close>.
\<close>

theorem retryFetch_failure_value_shape:
  assumes "\<forall>out' \<in> set pre. attempt_failed out'"
    and "attempt_result out = Inl m"
    and "int (length pre) + 1 = retries"
  shows "promise_state (retryFetch retries (pre @ out # rest)) =
           Rejected (Str (cross_mark @ failed_after retries m))
       \<and> promise_state (retryFetch_async retries (pre @ out # rest)) =
           Rejected (ErrorObj (failed_after retries m))
       \<and> get_field (ErrorObj (failed_after retries m)) ''message'' =
           Some (Str (failed_after retries m))
       \<and> get_field (Str (cross_mark @ failed_after retries m)) ''attemptsMade'' = None
       \<and> get_field (Str (cross_mark @ failed_after retries m)) ''lastError'' = None
       \<and> get_field (ErrorObj (failed_after retries m)) ''attemptsMade'' = None
       \<and> get_field (ErrorObj (failed_after retries m)) ''lastError'' = None"
proof -
  have eq: "1 + int (length pre) = retries" using assms(3) by simp
  have r: "promise_state (retryFetch retries (pre @ out # rest)) =
             Rejected (Str (cross_mark @ failed_after retries m))"
    unfolding retryFetch_def attemptFetch_exhausted [OF assms(1,2) eq] by simp
  have a: "promise_state (retryFetch_async retries (pre @ out # rest)) =
             Rejected (ErrorObj (failed_after retries m))"
    unfolding retryFetch_async_def retryFetch_loop_exhausted [OF assms(1,2) eq] by simp
  show ?thesis using r a by simp
qed

theorem retryFetch_failure_value_shape_witness:
  "list_all attempt_failed [Response False (Inr (7::nat))]
   \<and> attempt_result (TransportError ''Failed to fetch'' :: nat outcome) = Inl ''Failed to fetch''
   \<and> int (length [Response False (Inr (7::nat))]) + 1 = 2
   \<and> promise_state (retryFetch 2 [Response False (Inr (7::nat)), TransportError ''Failed to fetch''])
       = Rejected (Str (cross_mark @ ''Failed after 2 retries: Failed to fetch''))
   \<and> promise_state (retryFetch_async 2 [Response False (Inr (7::nat)), TransportError ''Failed to fetch''])
       = Rejected (ErrorObj ''Failed after 2 retries: Failed to fetch'')"
  using retryFetch_failure_value_shape
    [where pre = "[Response False (Inr (7::nat))]"
       and out = "TransportError ''Failed to fetch'' :: nat outcome"
       and m = "''Failed to fetch''" and retries = 2 and rest = "[]"]
  by (simp add: attempt_failed_def failed_after_def show_int_def show_nat.simps digit_char_def)

text \<open>
  C4 as stated fails: with \<open>retries = 2\<close> and two failing attempts the values rejected with
  are a string and an \<open>Error\<close>, and neither has the two fields, while an object of the
  described shape would.
\<close>

theorem retryFetch_failure_has_no_fields:
  "promise_state (retryFetch 2 [TransportError ''Failed to fetch'', Response False (Inr (7::nat))])
     = Rejected (Str (cross_mark @ ''Failed after 2 retries: Bad response.''))
   \<and> \<not> has_exhausted_fields (Str (cross_mark @ ''Failed after 2 retries: Bad response.''))
   \<and> promise_state (retryFetch_async 2 [TransportError ''Failed to fetch'', Response False (Inr (7::nat))])
     = Rejected (ErrorObj ''Failed after 2 retries: Bad response.'')
   \<and> \<not> has_exhausted_fields (ErrorObj ''Failed after 2 retries: Bad response.'')
   \<and> has_exhausted_fields (Obj [(''attemptsMade'', Num 2), (''lastError'', Str ''Bad response.'')])"
  by (simp add: retryFetch_def retryFetch_async_def retryFetch_loop.simps failed_after_def
      show_int_def show_nat.simps digit_char_def has_exhausted_fields_def)

text \<open>
  C5. Let \<open>retries = N\<close> and let the first \<open>N\<close> attempts fail, the \<open>N\<close>-th with error
  message \<open>m\<close>. The failure text of both implementations ends with \<open>m\<close>, after a prefix
  that depends on \<open>N\<close> only; the messages of the earlier attempts have no influence: any
  other \<open>N - 1\<close> failed attempts before the same last one give the same rejection.
\<close>

theorem retryFetch_last_error:
  assumes "\<forall>out' \<in> set pre. attempt_failed out'"
    and "\<forall>out' \<in> set pre'. attempt_failed out'"
    and "length pre' = length pre"
    and "attempt_result out = Inl m"
    and "int (length pre) + 1 = retries"
  shows "promise_state (retryFetch retries (pre @ out # rest)) =
           Rejected (Str ((cross_mark @ ''Failed after '' @ show_int retries @ '' retries: '') @ m))
       \<and> promise_state (retryFetch_async retries (pre @ out # rest)) =
           Rejected (ErrorObj ((''Failed after '' @ show_int retries @ '' retries: '') @ m))
       \<and> promise_state (retryFetch retries (pre' @ out # rest')) =
           promise_state (retryFetch retries (pre @ out # rest))
       \<and> promise_state (retryFetch_async retries (pre' @ out # rest')) =
           promise_state (retryFetch_async retries (pre @ out # rest))"
proof -
  have eq: "1 + int (length pre) = retries" using assms(5) by simp
  have eq': "1 + int (length pre') = retries" using assms(3,5) by simp
  have r: "promise_state (retryFetch retries (pre @ out # rest)) =
             Rejected (Str (cross_mark @ failed_after retries m))"
    unfolding retryFetch_def attemptFetch_exhausted [OF assms(1,4) eq] by simp
  have r': "promise_state (retryFetch retries (pre' @ out # rest')) =
             Rejected (Str (cross_mark @ failed_after retries m))"
    unfolding retryFetch_def attemptFetch_exhausted [OF assms(2,4) eq'] by simp
  have a: "promise_state (retryFetch_async retries (pre @ out # rest)) =
             Rejected (ErrorObj (failed_after retries m))"
    unfolding retryFetch_async_def retryFetch_loop_exhausted [OF assms(1,4) eq] by simp
  have a': "promise_state (retryFetch_async retries (pre' @ out # rest')) =
             Rejected (ErrorObj (failed_after retries m))"
    unfolding retryFetch_async_def retryFetch_loop_exhausted [OF assms(2,4) eq'] by simp
  show ?thesis unfolding r r' a a' by (simp add: failed_after_def)
qed

theorem retryFetch_last_error_witness:
  "list_all attempt_failed [TransportError ''first'', TransportError ''second'' :: nat outcome]
   \<and> list_all attempt_failed [Response False (Inr 1), Response True (Inl ''other'') :: nat outcome]
   \<and> length [Response False (Inr 1), Response True (Inl ''other'') :: nat outcome]
       = length [TransportError ''first'', TransportError ''second'' :: nat outcome]
   \<and> attempt_result (TransportError ''third'' :: nat outcome) = Inl ''third''
   \<and> int (length [TransportError ''first'', TransportError ''second'' :: nat outcome]) + 1 = 3
   \<and> promise_state (retryFetch 3
         [TransportError ''first'', TransportError ''second'', TransportError ''third'' :: nat outcome])
       = Rejected (Str (cross_mark @ ''Failed after 3 retries: third''))
   \<and> promise_state (retryFetch_async 3
         [TransportError ''first'', TransportError ''second'', TransportError ''third'' :: nat outcome])
       = Rejected (ErrorObj ''Failed after 3 retries: third'')
   \<and> promise_state (retryFetch 3
         [Response False (Inr 1), Response True (Inl ''other''), TransportError ''third'' :: nat outcome])
       = Rejected (Str (cross_mark @ ''Failed after 3 retries: third''))"
  using retryFetch_last_error
    [where pre = "[TransportError ''first'', TransportError ''second'' :: nat outcome]"
       and pre' = "[Response False (Inr 1), Response True (Inl ''other'') :: nat outcome]"
       and out = "TransportError ''third'' :: nat outcome"
       and m = "''third''" and retries = 3 and rest = "[]" and rest' = "[]"]
  by (simp add: attempt_failed_def show_int_def show_nat.simps digit_char_def)

section \<open>The two implementations compared\<close>

lemma attemptFetch_matches_loop:
  "attempt \<le> retries \<Longrightarrow>
   list_all2 matching (attemptFetch retries attempt outs) (retryFetch_loop retries attempt outs)"
proof (induction outs arbitrary: attempt)
  case Nil
  then show ?case by (simp add: retryFetch_loop_Nil)
next
  case (Cons out rest)
  show ?case
  proof (cases "attempt_result out")
    case (Inr d)
    with Cons.prems show ?thesis by (simp add: retryFetch_loop_Cons)
  next
    case (Inl m)
    show ?thesis
    proof (cases "attempt < retries")
      case True
      then have "list_all2 matching (attemptFetch retries (attempt + 1) rest)
                   (retryFetch_loop retries (attempt + 1) rest)"
        by (intro Cons.IH) simp
      with True Inl Cons.prems show ?thesis by (simp add: retryFetch_loop_Cons)
    next
      case False
      with Cons.prems have "attempt = retries" by simp
      with Inl show ?thesis by (simp add: retryFetch_loop_Cons)
    qed
  qed
qed

lemma matching_calls: "list_all2 matching t t' \<Longrightarrow> calls t = calls t'"
proof (induction rule: list_all2_induct)
  case Nil
  show ?case by simp
next
  case (Cons e t e' t')
  then show ?case
    by (cases e) (auto simp: calls_def split: js_value.splits event.splits)
qed

lemma matching_fetch_attempts:
  "list_all2 matching t t' \<Longrightarrow> fetch_attempts t = fetch_attempts t'"
proof (induction rule: list_all2_induct)
  case Nil
  show ?case by simp
next
  case (Cons e t e' t')
  then show ?case
    by (cases e) (auto split: js_value.splits event.splits)
qed

lemma matching_promise_state:
  "list_all2 matching t t' \<Longrightarrow>
     (promise_state t = Pending \<longleftrightarrow> promise_state t' = Pending)
   \<and> (promise_state t = Fulfilled d \<longleftrightarrow> promise_state t' = Fulfilled d)
   \<and> (promise_state t = Rejected (Str (cross_mark @ x)) \<longleftrightarrow>
        promise_state t' = Rejected (ErrorObj x))"
proof (induction rule: list_all2_induct)
  case Nil
  show ?case by simp
next
  case (Cons e t e' t')
  then show ?case
    by (cases e) (auto split: js_value.splits event.splits)
qed

text \<open>
  C3, as amended. For every \<open>retries \<ge> 1\<close> and every sequence of attempt outcomes the two
  implementations make the same \<open>fetch\<close> calls under the same attempt counters, resolve with
  the same payload after the same number of attempts, stay pending together, and reject
  together after the same number of attempts. The rejection carries the same text
  \<open>Failed after N retries: m\<close>, but not the same value: the promise-chain implementation
  rejects with a string that starts with the cross mark, the async/await implementation with
  an \<open>Error\<close> whose message is the text.
\<close>

theorem retryFetch_matches_async:
  assumes "1 \<le> retries"
  shows "list_all2 matching (retryFetch retries outs) (retryFetch_async retries outs)
       \<and> calls (retryFetch retries outs) = calls (retryFetch_async retries outs)
       \<and> fetch_attempts (retryFetch retries outs) = fetch_attempts (retryFetch_async retries outs)
       \<and> (promise_state (retryFetch retries outs) = Pending \<longleftrightarrow>
            promise_state (retryFetch_async retries outs) = Pending)
       \<and> (promise_state (retryFetch retries outs) = Fulfilled d \<longleftrightarrow>
            promise_state (retryFetch_async retries outs) = Fulfilled d)
       \<and> (promise_state (retryFetch retries outs) = Rejected (Str (cross_mark @ x)) \<longleftrightarrow>
            promise_state (retryFetch_async retries outs) = Rejected (ErrorObj x))"
proof -
  have m: "list_all2 matching (retryFetch retries outs) (retryFetch_async retries outs)"
    unfolding retryFetch_def retryFetch_async_def
    by (rule attemptFetch_matches_loop [OF assms])
  show ?thesis
    using m matching_calls [OF m] matching_fetch_attempts [OF m]
      matching_promise_state [OF m, of d x]
    by simp
qed

theorem retryFetch_matches_async_witness:
  "(1::int) \<le> 2
   \<and> list_all2 matching
        (retryFetch 2 [Response False (Inr (0::nat)), TransportError ''Failed to fetch''])
        (retryFetch_async 2 [Response False (Inr (0::nat)), TransportError ''Failed to fetch''])
   \<and> calls (retryFetch 2 [Response False (Inr (0::nat)), TransportError ''Failed to fetch'']) = 2
   \<and> (promise_state (retryFetch 2 [Response False (Inr (0::nat)), TransportError ''Failed to fetch''])
         = Rejected (Str (cross_mark @ ''Failed after 2 retries: Failed to fetch'')) \<longleftrightarrow>
       promise_state (retryFetch_async 2 [Response False (Inr (0::nat)), TransportError ''Failed to fetch''])
         = Rejected (ErrorObj ''Failed after 2 retries: Failed to fetch''))"
proof -
  have h: "(1::int) \<le> 2" by simp
  have c: "calls (retryFetch 2 [Response False (Inr (0::nat)), TransportError ''Failed to fetch'']) = 2"
    by (simp add: retryFetch_def calls_def)
  show ?thesis
    using retryFetch_matches_async
      [OF h, of "[Response False (Inr (0::nat)), TransportError ''Failed to fetch'']"
         _ "''Failed after 2 retries: Failed to fetch''"] c
    by simp
qed

text \<open>
  C3 as stated fails: with \<open>retries = 1\<close> and one failing attempt both reject, but with
  different values.
\<close>

theorem retryFetch_failure_values_differ:
  "promise_state (retryFetch 1 [TransportError ''Failed to fetch'' :: nat outcome])
     = Rejected (Str (cross_mark @ ''Failed after 1 retries: Failed to fetch''))
   \<and> promise_state (retryFetch_async 1 [TransportError ''Failed to fetch'' :: nat outcome])
     = Rejected (ErrorObj ''Failed after 1 retries: Failed to fetch'')
   \<and> promise_state (retryFetch 1 [TransportError ''Failed to fetch'' :: nat outcome])
     \<noteq> promise_state (retryFetch_async 1 [TransportError ''Failed to fetch'' :: nat outcome])"
  by (simp add: retryFetch_def retryFetch_async_def retryFetch_loop.simps failed_after_def
      show_int_def show_nat.simps digit_char_def)

section \<open>Settling, and the bound on attempts\<close>

text \<open>
  When the first \<open>retries\<close> calls of \<open>fetch\<close> all settle, either one of them is the first to
  succeed or all of them fail.
\<close>

lemma outcomes_cases:
  assumes "1 \<le> retries" and "nat retries \<le> length outs"
  obtains
    (success) pre out d rest where "outs = pre @ out # rest"
      and "\<forall>out' \<in> set pre. attempt_failed out'"
      and "attempt_result out = Inr d" and "int (length pre) + 1 \<le> retries"
  | (exhausted) pre out m rest where "outs = pre @ out # rest"
      and "\<forall>out' \<in> set pre. attempt_failed out'"
      and "attempt_result out = Inl m" and "int (length pre) + 1 = retries"
proof -
  define xs where "xs = take (nat retries) outs"
  have len: "length xs = nat retries" using assms(2) by (simp add: xs_def)
  have outs: "outs = xs @ drop (nat retries) outs" by (simp add: xs_def)
  show thesis
  proof (cases "\<forall>x \<in> set xs. attempt_failed x")
    case True
    from len assms(1) have ne: "xs \<noteq> []" by auto
    then have xs: "xs = butlast xs @ [last xs]" by simp
    from ne True have "attempt_failed (last xs)" by simp
    then obtain m where m: "attempt_result (last xs) = Inl m"
      by (cases "attempt_result (last xs)") (auto simp: attempt_failed_def)
    have 1: "outs = butlast xs @ last xs # drop (nat retries) outs"
      using outs xs by (metis append.assoc append_Cons append_Nil)
    have 2: "\<forall>out' \<in> set (butlast xs). attempt_failed out'"
      using True by (auto dest: in_set_butlastD)
    have 3: "int (length (butlast xs)) + 1 = retries"
      using len assms(1) by simp
    from 1 2 m 3 show thesis by (rule exhausted)
  next
    case False
    then have "\<exists>x \<in> set xs. \<not> attempt_failed x" by simp
    then obtain ys x zs where split: "xs = ys @ x # zs" and nx: "\<not> attempt_failed x"
      and ys: "\<forall>y \<in> set ys. \<not> \<not> attempt_failed y"
      by (auto dest!: split_list_first_prop)
    from nx obtain d where d: "attempt_result x = Inr d"
      by (cases "attempt_result x") (auto simp: attempt_failed_def)
    have 1: "outs = ys @ x # (zs @ drop (nat retries) outs)"
      using outs split by (metis append.assoc append_Cons)
    have 2: "\<forall>out' \<in> set ys. attempt_failed out'" using ys by simp
    have "length ys < nat retries" using len split by simp
    then have 3: "int (length ys) + 1 \<le> retries" by simp
    from 1 2 d 3 show thesis by (rule success)
  qed
qed

text \<open>
  C6. Let \<open>retries = N \<ge> 1\<close> and let the first \<open>N\<close> calls of \<open>fetch\<close> settle. In both
  implementations everything that happens before the one settlement is a \<open>fetch\<close> call: no
  failure of an attempt reaches the caller. The promise is settled exactly once, as the last
  effect: either resolved with a payload, or rejected with the terminal failure, whose text
  is \<open>Failed after N retries: m\<close> for the message \<open>m\<close> of the \<open>N\<close>-th attempt, and then all
  \<open>N\<close> attempts have failed.
\<close>

theorem retryFetch_settles_once:
  assumes "1 \<le> retries" and "nat retries \<le> length outs"
  shows "retryFetch retries outs =
           map Fetch (fetch_attempts (retryFetch retries outs)) @ settlements (retryFetch retries outs)
       \<and> retryFetch_async retries outs =
           map Fetch (fetch_attempts (retryFetch_async retries outs)) @
           settlements (retryFetch_async retries outs)
       \<and> ((\<exists>d. settlements (retryFetch retries outs) = [Resolve (Some d)]
               \<and> settlements (retryFetch_async retries outs) = [Resolve (Some d)])
          \<or> (\<exists>m. attempt_result (outs ! (nat retries - 1)) = Inl m
               \<and> list_all attempt_failed (take (nat retries) outs)
               \<and> settlements (retryFetch retries outs) =
                    [Reject (Str (cross_mark @ failed_after retries m))]
               \<and> settlements (retryFetch_async retries outs) =
                    [Reject (ErrorObj (failed_after retries m))]))"
  using assms
proof (cases rule: outcomes_cases)
  case (success pre out d rest)
  have le: "1 + int (length pre) \<le> retries" using success(4) by simp
  have r: "retryFetch retries outs = map Fetch [1..1 + int (length pre)] @ [Resolve (Some d)]"
    unfolding retryFetch_def success(1) by (rule attemptFetch_success [OF success(2,3) le])
  have a: "retryFetch_async retries outs = map Fetch [1..1 + int (length pre)] @ [Resolve (Some d)]"
    unfolding retryFetch_async_def success(1) by (rule retryFetch_loop_success [OF success(2,3) le])
  show ?thesis unfolding r a by (simp add: settlements_def)
next
  case (exhausted pre out m rest)
  have eq: "1 + int (length pre) = retries" using exhausted(4) by simp
  have r: "retryFetch retries outs =
             map Fetch [1..retries] @ [Reject (Str (cross_mark @ failed_after retries m))]"
    unfolding retryFetch_def exhausted(1) by (rule attemptFetch_exhausted [OF exhausted(2,3) eq])
  have a: "retryFetch_async retries outs =
             map Fetch [1..retries] @ [Reject (ErrorObj (failed_after retries m))]"
    unfolding retryFetch_async_def exhausted(1)
    by (rule retryFetch_loop_exhausted [OF exhausted(2,3) eq])
  have n: "nat retries - 1 = length pre" "nat retries = Suc (length pre)"
    using exhausted(4) by auto
  have last: "attempt_result (outs ! (nat retries - 1)) = Inl m"
    unfolding n exhausted(1) using exhausted(3) by simp
  have all: "list_all attempt_failed (take (nat retries) outs)"
    unfolding n exhausted(1) using exhausted(2,3)
    by (simp add: list_all_iff attempt_failed_def)
  show ?thesis unfolding r a using last all by (simp add: settlements_def)
qed

theorem retryFetch_settles_once_witness:
  "(1::int) \<le> 2
   \<and> nat 2 \<le> length [TransportError ''Failed to fetch'', Response True (Inr (5::nat))]
   \<and> retryFetch 2 [TransportError ''Failed to fetch'', Response True (Inr (5::nat))]
       = [Fetch 1, Fetch 2, Resolve (Some 5)]
   \<and> settlements (retryFetch 2 [TransportError ''Failed to fetch'', Response True (Inr (5::nat))])
       = [Resolve (Some 5)]
   \<and> settlements (retryFetch_async 2 [TransportError ''Failed to fetch'', Response True (Inr (5::nat))])
       = [Resolve (Some 5)]"
proof -
  have h1: "(1::int) \<le> 2" by simp
  have h2: "nat 2 \<le> length [TransportError ''Failed to fetch'', Response True (Inr (5::nat))]"
    by simp
  show ?thesis
    using retryFetch_settles_once [OF h1 h2]
    by (simp add: retryFetch_def retryFetch_async_def retryFetch_loop.simps settlements_def)
qed

lemma calls_Cons [simp]:
  "calls (Fetch n # t) = Suc (calls t)"
  "calls (Resolve d # t) = calls t"
  "calls (Reject v # t) = calls t"
  "calls [] = 0"
  by (simp_all add: calls_def)

lemma attemptFetch_bounded:
  "attempt \<le> retries \<Longrightarrow>
     calls (attemptFetch retries attempt outs) \<le> nat (retries - attempt) + 1
   \<and> (\<forall>n \<in> set (fetch_attempts (attemptFetch retries attempt outs)). attempt \<le> n \<and> n \<le> retries)"
proof (induction outs arbitrary: attempt)
  case Nil
  then show ?case by simp
next
  case (Cons out rest)
  show ?case
  proof (cases "attempt_result out")
    case (Inr d)
    with Cons.prems show ?thesis by simp
  next
    case (Inl m)
    show ?thesis
    proof (cases "attempt < retries")
      case True
      then have "calls (attemptFetch retries (attempt + 1) rest) \<le> nat (retries - (attempt + 1)) + 1
        \<and> (\<forall>n \<in> set (fetch_attempts (attemptFetch retries (attempt + 1) rest)).
              attempt + 1 \<le> n \<and> n \<le> retries)"
        by (intro Cons.IH) simp
      with True Inl show ?thesis by auto
    next
      case False
      with Inl Cons.prems show ?thesis by simp
    qed
  qed
qed

lemma retryFetch_loop_bounded:
  "attempt \<le> retries \<Longrightarrow>
     calls (retryFetch_loop retries attempt outs) \<le> nat (retries - attempt) + 1
   \<and> (\<forall>n \<in> set (fetch_attempts (retryFetch_loop retries attempt outs)). attempt \<le> n \<and> n \<le> retries)"
proof (induction outs arbitrary: attempt)
  case Nil
  then show ?case by (simp add: retryFetch_loop_Nil)
next
  case (Cons out rest)
  show ?case
  proof (cases "attempt_result out")
    case (Inr d)
    with Cons.prems show ?thesis by (simp add: retryFetch_loop_Cons)
  next
    case (Inl m)
    show ?thesis
    proof (cases "attempt < retries")
      case True
      then have "calls (retryFetch_loop retries (attempt + 1) rest) \<le> nat (retries - (attempt + 1)) + 1
        \<and> (\<forall>n \<in> set (fetch_attempts (retryFetch_loop retries (attempt + 1) rest)).
              attempt + 1 \<le> n \<and> n \<le> retries)"
        by (intro Cons.IH) simp
      with True Inl show ?thesis by (auto simp: retryFetch_loop_Cons)
    next
      case False
      with Inl Cons.prems show ?thesis by (simp add: retryFetch_loop_Cons)
    qed
  qed
qed

lemma retryFetch_not_pending:
  assumes "1 \<le> retries" and "nat retries \<le> length outs"
  shows "promise_state (retryFetch retries outs) \<noteq> Pending
       \<and> promise_state (retryFetch_async retries outs) \<noteq> Pending"
  using assms
proof (cases rule: outcomes_cases)
  case (success pre out d rest)
  have le: "1 + int (length pre) \<le> retries" using success(4) by simp
  show ?thesis
    unfolding retryFetch_def retryFetch_async_def success(1)
      attemptFetch_success [OF success(2,3) le] retryFetch_loop_success [OF success(2,3) le]
    by simp
next
  case (exhausted pre out m rest)
  have eq: "1 + int (length pre) = retries" using exhausted(4) by simp
  show ?thesis
    unfolding retryFetch_def retryFetch_async_def exhausted(1)
      attemptFetch_exhausted [OF exhausted(2,3) eq] retryFetch_loop_exhausted [OF exhausted(2,3) eq]
    by simp
qed

text \<open>
  C9. For every \<open>retries = N \<ge> 1\<close> and every sequence of attempt outcomes, both
  implementations make at most \<open>N\<close> calls of \<open>fetch\<close>, and every call is made under an attempt
  counter between 1 and \<open>N\<close>: the recursion never goes beyond \<open>attempt = N\<close>. When the first
  \<open>N\<close> calls settle, the promise handed to the caller settles too.
\<close>

theorem retryFetch_terminates:
  assumes "1 \<le> retries"
  shows "calls (retryFetch retries outs) \<le> nat retries
       \<and> calls (retryFetch_async retries outs) \<le> nat retries
       \<and> (\<forall>n \<in> set (fetch_attempts (retryFetch retries outs)). 1 \<le> n \<and> n \<le> retries)
       \<and> (\<forall>n \<in> set (fetch_attempts (retryFetch_async retries outs)). 1 \<le> n \<and> n \<le> retries)
       \<and> (nat retries \<le> length outs \<longrightarrow>
            promise_state (retryFetch retries outs) \<noteq> Pending
          \<and> promise_state (retryFetch_async retries outs) \<noteq> Pending)"
proof -
  have n: "nat (retries - 1) + 1 = nat retries" using assms by simp
  have r: "calls (retryFetch retries outs) \<le> nat retries
       \<and> (\<forall>n \<in> set (fetch_attempts (retryFetch retries outs)). 1 \<le> n \<and> n \<le> retries)"
    using attemptFetch_bounded [OF assms, of outs] unfolding retryFetch_def n .
  have a: "calls (retryFetch_async retries outs) \<le> nat retries
       \<and> (\<forall>n \<in> set (fetch_attempts (retryFetch_async retries outs)). 1 \<le> n \<and> n \<le> retries)"
    using retryFetch_loop_bounded [OF assms, of outs] unfolding retryFetch_async_def n .
  show ?thesis using r a retryFetch_not_pending [OF assms, of outs] by blast
qed

theorem retryFetch_terminates_witness:
  "(1::int) \<le> 3
   \<and> calls (retryFetch 3 [TransportError ''a'', TransportError ''b'', TransportError ''c'',
                           Response True (Inr (1::nat))]) \<le> nat 3
   \<and> fetch_attempts (retryFetch 3 [TransportError ''a'', TransportError ''b'',
                           TransportError ''c'', Response True (Inr (1::nat))]) = [1, 2, 3]
   \<and> nat 3 \<le> length [TransportError ''a'', TransportError ''b'', TransportError ''c'',
                           Response True (Inr (1::nat))]
   \<and> promise_state (retryFetch 3 [TransportError ''a'', TransportError ''b'',
                           TransportError ''c'', Response True (Inr (1::nat))]) \<noteq> Pending
   \<and> promise_state (retryFetch_async 3 [TransportError ''a'', TransportError ''b'',
                           TransportError ''c'', Response True (Inr (1::nat))]) \<noteq> Pending"
proof -
  have h: "(1::int) \<le> 3" by simp
  have f: "fetch_attempts (retryFetch 3 [TransportError ''a'', TransportError ''b'',
             TransportError ''c'', Response True (Inr (1::nat))]) = [1, 2, 3]"
    by (simp add: retryFetch_def)
  show ?thesis
    using retryFetch_terminates
      [OF h, of "[TransportError ''a'', TransportError ''b'', TransportError ''c'',
                  Response True (Inr (1::nat))]"] f
    by simp
qed

section \<open>One classification for every failure\<close>

lemma attempt_result_as_transport_failure [simp]:
  "attempt_result (as_transport_failure out) = attempt_result out"
  by (cases out) simp_all

lemma attemptFetch_as_transport_failure:
  "attemptFetch retries attempt (map as_transport_failure outs) = attemptFetch retries attempt outs"
  by (induction outs arbitrary: attempt) (simp_all split: sum.splits)

lemma retryFetch_loop_as_transport_failure:
  "retryFetch_loop retries attempt (map as_transport_failure outs) =
   retryFetch_loop retries attempt outs"
proof (induction outs arbitrary: attempt)
  case Nil
  show ?case by simp
next
  case (Cons out rest)
  show ?case
  proof (cases "attempt \<le> retries")
    case True
    then show ?thesis
      by (simp add: retryFetch_loop_Cons Cons.IH split: sum.splits)
  next
    case False
    then show ?thesis by (simp add: retryFetch_loop_exit)
  qed
qed

text \<open>
  C7. An attempt whose transport fails with message \<open>m\<close> and an attempt whose response has
  a non-ok status are handled by the same code under the same condition on the attempt
  counter: the promise-chain implementation retries when \<open>attempt < retries\<close> and rejects
  otherwise, the loop rejects when \<open>attempt = retries\<close> and goes round again otherwise. The
  non-ok response only differs by its fixed message \<open>Bad response.\<close>; replacing every non-ok
  response of a sequence by a transport failure with that message changes nothing in what
  either implementation does.
\<close>

theorem retryFetch_uniform_failures:
  "attemptFetch retries attempt (TransportError m # rest) =
     Fetch attempt #
     (if attempt < retries then attemptFetch retries (attempt + 1) rest
      else [Reject (Str (cross_mark @ failed_after retries m))])
   \<and> attemptFetch retries attempt (Response False body # rest) =
     Fetch attempt #
     (if attempt < retries then attemptFetch retries (attempt + 1) rest
      else [Reject (Str (cross_mark @ failed_after retries ''Bad response.''))])
   \<and> retryFetch_loop retries attempt (TransportError m # rest) =
     (if attempt \<le> retries then
        Fetch attempt #
        (if attempt = retries then [Reject (ErrorObj (failed_after retries m))]
         else retryFetch_loop retries (attempt + 1) rest)
      else [Resolve None])
   \<and> retryFetch_loop retries attempt (Response False body # rest) =
     (if attempt \<le> retries then
        Fetch attempt #
        (if attempt = retries then [Reject (ErrorObj (failed_after retries ''Bad response.''))]
         else retryFetch_loop retries (attempt + 1) rest)
      else [Resolve None])
   \<and> retryFetch retries (map as_transport_failure outs) = retryFetch retries outs
   \<and> retryFetch_async retries (map as_transport_failure outs) = retryFetch_async retries outs"
proof -
  have l1: "retryFetch_loop retries attempt (TransportError m # rest) =
     (if attempt \<le> retries then
        Fetch attempt #
        (if attempt = retries then [Reject (ErrorObj (failed_after retries m))]
         else retryFetch_loop retries (attempt + 1) rest)
      else [Resolve None])"
    by (subst retryFetch_loop.simps) simp
  have l2: "retryFetch_loop retries attempt (Response False body # rest) =
     (if attempt \<le> retries then
        Fetch attempt #
        (if attempt = retries then [Reject (ErrorObj (failed_after retries ''Bad response.''))]
         else retryFetch_loop retries (attempt + 1) rest)
      else [Resolve None])"
    by (subst retryFetch_loop.simps) simp
  have g1: "retryFetch retries (map as_transport_failure outs) = retryFetch retries outs"
    unfolding retryFetch_def by (rule attemptFetch_as_transport_failure)
  have g2: "retryFetch_async retries (map as_transport_failure outs) = retryFetch_async retries outs"
    unfolding retryFetch_async_def by (rule retryFetch_loop_as_transport_failure)
  show ?thesis using l1 l2 g1 g2 by simp
qed

theorem retryFetch_uniform_failures_witness:
  "retryFetch 2 (map as_transport_failure [Response False (Inr (0::nat)), Response False (Inr 1)])
     = retryFetch 2 [Response False (Inr (0::nat)), Response False (Inr 1)]
   \<and> retryFetch 2 [TransportError ''Bad response.'', TransportError ''Bad response.'' :: nat outcome]
     = [Fetch 1, Fetch 2, Reject (Str (cross_mark @ ''Failed after 2 retries: Bad response.''))]
   \<and> retryFetch 2 [Response False (Inr (0::nat)), Response False (Inr 1)]
     = [Fetch 1, Fetch 2, Reject (Str (cross_mark @ ''Failed after 2 retries: Bad response.''))]"
  using retryFetch_uniform_failures
    [where retries = 2 and outs = "[Response False (Inr (0::nat)), Response False (Inr 1)]"]
  by (simp add: retryFetch_def failed_after_def show_int_def show_nat.simps digit_char_def)

section \<open>The boundaries \<open>retries = 1\<close> and \<open>retries = 0\<close>\<close>

text \<open>
  C8. With \<open>retries = 1\<close> both implementations call \<open>fetch\<close> once, whatever the outcome of
  that call and of any later one would be. When the call settles, a successful attempt
  resolves the promise with the payload and a failed one rejects it at once with the
  terminal failure; nothing follows.
\<close>

theorem retryFetch_single_attempt:
  "calls (retryFetch 1 (outs :: 'a outcome list)) = 1
   \<and> calls (retryFetch_async 1 outs) = 1
   \<and> fetch_attempts (retryFetch 1 outs) = [1]
   \<and> fetch_attempts (retryFetch_async 1 outs) = [1]
   \<and> retryFetch 1 ((out :: 'a outcome) # rest) =
       [Fetch 1,
        case attempt_result out of
          Inr d \<Rightarrow> Resolve (Some d)
        | Inl m \<Rightarrow> Reject (Str (cross_mark @ ''Failed after 1 retries: '' @ m))]
   \<and> retryFetch_async 1 (out # rest) =
       [Fetch 1,
        case attempt_result out of
          Inr d \<Rightarrow> Resolve (Some d)
        | Inl m \<Rightarrow> Reject (ErrorObj (''Failed after 1 retries: '' @ m))]"
proof -
  have s: "show_int 1 = ''1''"
    by (simp add: show_int_def show_nat.simps digit_char_def)
  have r: "retryFetch 1 (out' # rest') =
       [Fetch 1,
        case attempt_result out' of
          Inr d \<Rightarrow> Resolve (Some d)
        | Inl m \<Rightarrow> Reject (Str (cross_mark @ ''Failed after 1 retries: '' @ m))]"
    for out' :: "'a outcome" and rest'
    by (simp add: retryFetch_def failed_after_def s split: sum.splits)
  have a: "retryFetch_async 1 (out' # rest') =
       [Fetch 1,
        case attempt_result out' of
          Inr d \<Rightarrow> Resolve (Some d)
        | Inl m \<Rightarrow> Reject (ErrorObj (''Failed after 1 retries: '' @ m))]"
    for out' :: "'a outcome" and rest'
    by (simp add: retryFetch_async_def retryFetch_loop_Cons failed_after_def s split: sum.splits)
  have c: "calls (retryFetch 1 outs) = 1 \<and> calls (retryFetch_async 1 outs) = 1
         \<and> fetch_attempts (retryFetch 1 outs) = [1]
         \<and> fetch_attempts (retryFetch_async 1 outs) = [1]"
  proof (cases outs)
    case Nil
    then show ?thesis by (simp add: retryFetch_def retryFetch_async_def retryFetch_loop_Nil)
  next
    case (Cons out' rest')
    show ?thesis unfolding Cons r a by (simp split: sum.splits)
  qed
  show ?thesis using c r [of out rest] a [of out rest] by simp
qed

theorem retryFetch_single_attempt_witness:
  "calls (retryFetch 1 [TransportError ''Failed to fetch'', Response True (Inr (9::nat))]) = 1
   \<and> retryFetch 1 [TransportError ''Failed to fetch'', Response True (Inr (9::nat))]
       = [Fetch 1, Reject (Str (cross_mark @ ''Failed after 1 retries: Failed to fetch''))]
   \<and> retryFetch_async 1 [TransportError ''Failed to fetch'', Response True (Inr (9::nat))]
       = [Fetch 1, Reject (ErrorObj ''Failed after 1 retries: Failed to fetch'')]"
  using retryFetch_single_attempt
    [where outs = "[TransportError ''Failed to fetch'', Response True (Inr (9::nat))]"
       and out = "TransportError ''Failed to fetch''" and rest = "[Response True (Inr (9::nat))]"]
  by simp

text \<open>
  C10. Nothing checks \<open>retries \<ge> 1\<close>. With \<open>retries = 0\<close> the loop of the async/await
  implementation is not entered: no \<open>fetch\<close> call is made and the promise is fulfilled with
  \<open>undefined\<close>, not rejected. The promise-chain implementation calls \<open>attemptFetch(1)\<close>
  without looking at \<open>retries\<close>, and so makes one \<open>fetch\<close> call, under the attempt counter 1,
  and no second one.
\<close>

theorem retryFetch_zero_retries:
  "retryFetch_async 0 outs = [Resolve None]
   \<and> calls (retryFetch_async 0 outs) = 0
   \<and> promise_state (retryFetch_async 0 outs) = Fulfilled None
   \<and> calls (retryFetch 0 outs) = 1
   \<and> fetch_attempts (retryFetch 0 outs) = [1]"
proof -
  have a: "retryFetch_async 0 outs = [Resolve None]"
    by (simp add: retryFetch_async_def retryFetch_loop_exit)
  have r: "calls (retryFetch 0 outs) = 1 \<and> fetch_attempts (retryFetch 0 outs) = [1]"
    by (cases outs) (simp_all add: retryFetch_def split: sum.splits)
  show ?thesis unfolding a using r by simp
qed

theorem retryFetch_zero_retries_witness:
  "retryFetch_async 0 [Response True (Inr (9::nat))] = [Resolve None]
   \<and> calls (retryFetch_async 0 [Response True (Inr (9::nat))]) = 0
   \<and> calls (retryFetch 0 [Response True (Inr (9::nat))]) = 1
   \<and> retryFetch 0 [Response True (Inr (9::nat))] = [Fetch 1, Resolve (Some 9)]
   \<and> retryFetch 0 [TransportError ''Failed to fetch'' :: nat outcome]
       = [Fetch 1, Reject (Str (cross_mark @ ''Failed after 0 retries: Failed to fetch''))]"
  using retryFetch_zero_retries [where outs = "[Response True (Inr (9::nat))]"]
  by (simp add: retryFetch_def failed_after_def show_int_def show_nat.simps digit_char_def)

end
